theory Spec2Isabelle
  imports Main
begin

section \<open>The recipe application: data\<close>

text \<open>
  The application keeps one module-level list of dictionaries, \<open>recipes\<close>. Each dictionary
  binds the keys \<open>id\<close>, \<open>name\<close>, \<open>category\<close> and \<open>description\<close>; the first is bound to an
  integer, the others to text. A dictionary is kept as the association list of its literal,
  a value as a tagged union of the two kinds of value that occur.
\<close>

datatype pyval = PyInt int | PyStr string

type_synonym recipe = "(string \<times> pyval) list"

type_synonym store = "recipe list"

definition recipes :: store where
  "recipes =
    [ [ (''id'', PyInt 1),
        (''name'', PyStr ''Adobo''),
        (''category'', PyStr ''Main Course''),
        (''description'', PyStr ''A savoury dish of marinated pork or chicken simmered in soy sauce, vinegar, and garlic.'') ],
      [ (''id'', PyInt 2),
        (''name'', PyStr ''Kare-Kare''),
        (''category'', PyStr ''Main Course''),
        (''description'', PyStr ''A rich peanut-based stew with oxtail, beef, or pork, served with a side of shrimp paste (bagoong).'') ],
      [ (''id'', PyInt 3),
        (''name'', PyStr ''Lumpia''),
        (''category'', PyStr ''Main Course''),
        (''description'', PyStr ''A crispy, golden fried spring roll filled with seasoned ground pork and vegetables, often served with sweet and sour dipping sauce.'') ] ]"

text \<open>
  Subscription \<open>d[k]\<close> raises \<open>KeyError\<close> on a key the dictionary does not bind.
\<close>

datatype error = KeyError string

definition getitem :: "recipe \<Rightarrow> string \<Rightarrow> error + pyval" where
  "getitem d k = (case map_of d k of None \<Rightarrow> Inl (KeyError k) | Some v \<Rightarrow> Inr v)"

text \<open>
  The comparison \<open>r['id'] == recipe_id\<close> against an integer: equal integers compare equal,
  text never equals an integer.
\<close>

fun py_eq :: "pyval \<Rightarrow> int \<Rightarrow> bool" where
  "py_eq (PyInt n) i = (n = i)"
| "py_eq (PyStr t) i = False"

text \<open>
  The truth value of \<open>recipe\<close> in \<open>if recipe:\<close>, where \<open>recipe\<close> is \<open>None\<close> or a dictionary:
  \<open>None\<close> and the empty dictionary are false.
\<close>

fun truthy :: "recipe option \<Rightarrow> bool" where
  "truthy None = False"
| "truthy (Some d) = (d \<noteq> [])"

section \<open>Responses\<close>

text \<open>
  The template files are rendered by the web framework. A rendered page is kept as the name
  of the template together with the keyword arguments handed to \<open>render_template\<close>; a view
  that returns only a body is answered with status 200, a view that returns a pair of a body
  and a code is answered with that code.
\<close>

datatype ctxval = CtxRecipes "recipe list" | CtxRecipe recipe

type_synonym template_context = "(string \<times> ctxval) list"

datatype body = Text string | Rendered string template_context

record response =
  body :: body
  status :: int

definition render_template :: "string \<Rightarrow> template_context \<Rightarrow> response" where
  "render_template template_name ctx = \<lparr>body = Rendered template_name ctx, status = 200\<rparr>"

section \<open>The view functions\<close>

text \<open>
  Every view function runs against the current value of the module-level list and hands it
  back, so that an assignment to it, were there one, would show in the second component.
  An exception that a view raises is the left summand of its result.
\<close>

definition index :: "store \<Rightarrow> (error + response) \<times> store" where
  "index s = (Inr (render_template ''index.html'' [(''recipes'', CtxRecipes s)]), s)"

text \<open>
  \<open>next((r for r in recipes if r['id'] == recipe_id), None)\<close>: the generator visits the
  records in list order, subscripts each one, and stops at the first that compares equal;
  the default \<open>None\<close> is the result when the list is exhausted.
\<close>

fun next_recipe :: "store \<Rightarrow> int \<Rightarrow> error + recipe option" where
  "next_recipe [] recipe_id = Inr None"
| "next_recipe (r # rs) recipe_id =
     (case getitem r ''id'' of
        Inl e \<Rightarrow> Inl e
      | Inr v \<Rightarrow> if py_eq v recipe_id then Inr (Some r) else next_recipe rs recipe_id)"

definition recipe_detail :: "int \<Rightarrow> store \<Rightarrow> (error + response) \<times> store" where
  "recipe_detail recipe_id s =
     (case next_recipe s recipe_id of
        Inl e \<Rightarrow> (Inl e, s)
      | Inr recipe \<Rightarrow>
          (if truthy recipe
           then (case recipe of
                   Some r \<Rightarrow> (Inr (render_template ''recipe_detail.html'' [(''recipe'', CtxRecipe r)]), s)
                 | None \<Rightarrow> (Inr \<lparr>body = Text ''Recipe not found'', status = 404\<rparr>, s))
           else (Inr \<lparr>body = Text ''Recipe not found'', status = 404\<rparr>, s)))"

definition add_recipe :: "store \<Rightarrow> (error + response) \<times> store" where
  "add_recipe s = (Inr (render_template ''add_recipe.html'' []), s)"

definition about :: "store \<Rightarrow> (error + response) \<times> store" where
  "about s = (Inr (render_template ''about.html'' []), s)"

definition contact :: "store \<Rightarrow> (error + response) \<times> store" where
  "contact s = (Inr (render_template ''contact.html'' []), s)"

section \<open>Requests and dispatch\<close>

text \<open>
  The application registers five routes, each by \<open>@app.route\<close> with a URL rule and no
  \<open>methods\<close> argument: \<open>/\<close>, \<open>/recipe/<int:recipe_id>\<close>, \<open>/add-recipe\<close>, \<open>/about\<close> and
  \<open>/contact\<close>. An endpoint is a matched route together with the argument its rule binds; the
  \<open>int\<close> converter binds non-negative integers only, so the detail route carries a natural
  number. A request carries a method (in upper case), a query string and a submitted form.
\<close>

datatype endpoint = Index | RecipeDetail nat | AddRecipe | About | Contact

record request =
  req_method :: string
  req_args :: "(string \<times> string) list"
  req_form :: "(string \<times> string) list"

text \<open>
  The view function of an endpoint is called with the bound argument alone; no view function
  takes or reads the request.
\<close>

fun call_view :: "endpoint \<Rightarrow> store \<Rightarrow> (error + response) \<times> store" where
  "call_view Index s = index s"
| "call_view (RecipeDetail recipe_id) s = recipe_detail (int recipe_id) s"
| "call_view AddRecipe s = add_recipe s"
| "call_view About s = about s"
| "call_view Contact s = contact s"

text \<open>
  What a request to a matched route is answered with. A route registered without \<open>methods\<close>
  accepts \<open>GET\<close>, and with it \<open>HEAD\<close> and \<open>OPTIONS\<close>: for \<open>GET\<close> the view function is called and
  its result is the reply; for \<open>HEAD\<close> it is called as well and its result is sent without the
  body; \<open>OPTIONS\<close> is answered by the framework itself, and every other method with status 405,
  in both cases without a call of the view function. A path that no rule matches gets the
  framework's own page with status 404.
\<close>

datatype reply =
    View "error + response"
  | View_Head "error + response"
  | Automatic_Options
  | Method_Not_Allowed
  | Not_Found_Page


definition handle :: "endpoint \<Rightarrow> request \<Rightarrow> store \<Rightarrow> reply \<times> store" where
  "handle ep rq s =
     (if req_method rq = ''GET'' then (View (fst (call_view ep s)), snd (call_view ep s))
      else if req_method rq = ''HEAD'' then (View_Head (fst (call_view ep s)), snd (call_view ep s))
      else if req_method rq = ''OPTIONS'' then (Automatic_Options, s)
      else (Method_Not_Allowed, s))"

text \<open>Serving a sequence of requests, one after the other, from a given store.\<close>

fun serve :: "(endpoint \<times> request) list \<Rightarrow> store \<Rightarrow> store" where
  "serve [] s = s"
| "serve ((ep, rq) # rest) s = serve rest (snd (handle ep rq s))"

text \<open>
  The rule \<open>/recipe/<int:recipe_id>\<close>. Its converter matches a path segment that is a non-empty
  run of the decimal digits, with no sign, and binds the number the digits denote. A request
  whose path is \<open>/recipe/\<close> followed by one segment (a segment holds no slash) is answered
  through the detail route when the converter matches the segment; no other rule of the
  application matches such a path, so otherwise the reply is the framework's page.
\<close>

definition is_digit :: "char \<Rightarrow> bool" where
  "is_digit c = (c \<in> set ''0123456789'')"

definition digit_value :: "char \<Rightarrow> nat" where
  "digit_value c = of_char c - 48"

definition int_converter :: "string \<Rightarrow> nat option" where
  "int_converter seg =
     (if seg \<noteq> [] \<and> list_all is_digit seg
      then Some (foldl (\<lambda>acc c. 10 * acc + digit_value c) 0 seg)
      else None)"

definition recipe_route :: "string \<Rightarrow> request \<Rightarrow> store \<Rightarrow> reply \<times> store" where
  "recipe_route seg rq s =
     (case int_converter seg of
        None \<Rightarrow> (Not_Found_Page, s)
      | Some recipe_id \<Rightarrow> handle (RecipeDetail recipe_id) rq s)"

text \<open>The integer identifiers of a collection, in list order.\<close>

fun recipe_ids :: "store \<Rightarrow> int list" where
  "recipe_ids [] = []"
| "recipe_ids (r # rs) =
     (case map_of r ''id'' of
        Some (PyInt n) \<Rightarrow> n # recipe_ids rs
      | _ \<Rightarrow> recipe_ids rs)"

section \<open>Auxiliary facts\<close>

text \<open>No view function changes the collection.\<close>

lemma recipe_detail_frame: "snd (recipe_detail i s) = s"
  by (auto simp: recipe_detail_def split: sum.splits option.splits)

lemma call_view_frame: "snd (call_view ep s) = s"
  by (cases ep)
     (simp_all add: index_def recipe_detail_frame add_recipe_def about_def contact_def)

lemma handle_frame: "snd (handle ep rq s) = s"
  by (simp add: handle_def call_view_frame)

lemma serve_frame: "serve reqs s = s"
  by (induction reqs s rule: serve.induct) (simp_all add: handle_frame)

text \<open>Every seeded record binds \<open>id\<close> to an integer, and no integer twice.\<close>

lemma recipes_have_ids: "\<forall>r \<in> set recipes. \<exists>n. map_of r ''id'' = Some (PyInt n)"
  by (simp add: recipes_def)

lemma recipes_ids_distinct: "distinct (recipe_ids recipes)"
  by (simp add: recipes_def)

text \<open>
  On a collection whose records all bind \<open>id\<close> to an integer, the generator raises nothing
  and finds what \<open>find\<close> finds.
\<close>

lemma next_recipe_find:
  "\<forall>r \<in> set s. \<exists>n. map_of r ''id'' = Some (PyInt n) \<Longrightarrow>
   next_recipe s i = Inr (find (\<lambda>r. map_of r ''id'' = Some (PyInt i)) s)"
  by (induction s) (auto simp: getitem_def)

lemma recipe_ids_member:
  "i \<in> set (recipe_ids s) \<longleftrightarrow> (\<exists>r \<in> set s. map_of r ''id'' = Some (PyInt i))"
  by (induction s) (auto split: option.splits pyval.splits)

lemma find_unique:
  "distinct (recipe_ids s) \<Longrightarrow> r \<in> set s \<Longrightarrow> map_of r ''id'' = Some (PyInt i) \<Longrightarrow>
   find (\<lambda>r. map_of r ''id'' = Some (PyInt i)) s = Some r"
proof (induction s)
  case Nil
  then show ?case by simp
next
  case (Cons a s)
  show ?case
  proof (cases "map_of a ''id'' = Some (PyInt i)")
    case True
    with Cons.prems have "i \<notin> set (recipe_ids s)" by simp
    with Cons.prems(3) have "r \<notin> set s" by (auto simp: recipe_ids_member)
    with Cons.prems(2) True show ?thesis by simp
  next
    case False
    with Cons.prems have "r \<in> set s" by auto
    moreover from Cons.prems(1) have "distinct (recipe_ids s)"
      by (auto split: option.splits pyval.splits)
    ultimately show ?thesis using Cons.IH Cons.prems(3) False by simp
  qed
qed

lemma detail_of_find:
  "next_recipe s i = Inr (Some r) \<Longrightarrow> map_of r ''id'' = Some v \<Longrightarrow>
   recipe_detail i s = (Inr (render_template ''recipe_detail.html'' [(''recipe'', CtxRecipe r)]), s)"
  by (auto simp: recipe_detail_def)

lemma detail_of_none:
  "next_recipe s i = Inr None \<Longrightarrow>
   recipe_detail i s = (Inr \<lparr>body = Text ''Recipe not found'', status = 404\<rparr>, s)"
  by (simp add: recipe_detail_def)




text \<open>The converter of the detail route on some segments, and the segments it refuses.\<close>

lemma int_converter_examples:
  "int_converter ''2'' = Some 2" "int_converter ''007'' = Some 7" "int_converter ''999'' = Some 999"
  "int_converter ''-1'' = None" "int_converter ''1.5'' = None" "int_converter '''' = None"
  by (simp_all add: int_converter_def is_digit_def digit_value_def)

lemma int_converter_None:
  "int_converter seg = None \<longleftrightarrow> (seg = [] \<or> (\<exists>c \<in> set seg. \<not> is_digit c))"
  by (auto simp: int_converter_def list_all_iff)

section \<open>The seeded collection\<close>

text \<open>
  C4. The seeded collection holds exactly three records; their identifiers are 1, 2 and 3,
  in this order, and none occurs twice.
\<close>

theorem recipes_seeded:
  "length recipes = 3 \<and> recipe_ids recipes = [1, 2, 3] \<and> distinct (recipe_ids recipes)
   \<and> set (recipe_ids recipes) = {1, 2, 3}"
  by (simp add: recipes_def)

section \<open>The detail view\<close>

text \<open>
  C1. For every integer identifier, the lookup of the detail view over the seeded collection
  is the first record, in list order, whose \<open>id\<close> is that integer, and \<open>None\<close> when there is
  no such record; the view answers with the detail page of that record in the first case
  and with the not-found response in the second.
\<close>

theorem recipe_detail_first_match:
  "next_recipe recipes recipe_id
     = Inr (find (\<lambda>r. map_of r ''id'' = Some (PyInt recipe_id)) recipes)
   \<and> fst (recipe_detail recipe_id recipes)
     = (case find (\<lambda>r. map_of r ''id'' = Some (PyInt recipe_id)) recipes of
          Some r \<Rightarrow> Inr (render_template ''recipe_detail.html'' [(''recipe'', CtxRecipe r)])
        | None \<Rightarrow> Inr \<lparr>body = Text ''Recipe not found'', status = 404\<rparr>)"
proof -
  let ?P = "\<lambda>r. map_of r ''id'' = Some (PyInt recipe_id)"
  have n: "next_recipe recipes recipe_id = Inr (find ?P recipes)"
    by (rule next_recipe_find [OF recipes_have_ids])
  have "fst (recipe_detail recipe_id recipes)
     = (case find ?P recipes of
          Some r \<Rightarrow> Inr (render_template ''recipe_detail.html'' [(''recipe'', CtxRecipe r)])
        | None \<Rightarrow> Inr \<lparr>body = Text ''Recipe not found'', status = 404\<rparr>)"
  proof (cases "find ?P recipes")
    case None
    with n show ?thesis by (simp add: detail_of_none)
  next
    case (Some r)
    then have "?P r" by (auto simp: find_Some_iff)
    with n Some show ?thesis by (simp add: detail_of_find)
  qed
  with n show ?thesis by simp
qed

text \<open>
  C2. For every integer that is not the identifier of a seeded record, whatever its sign or
  size, the detail view answers with the text \<open>Recipe not found\<close> and status 404.
\<close>

theorem recipe_detail_not_found:
  "recipe_id \<notin> set (recipe_ids recipes) \<Longrightarrow>
   recipe_detail recipe_id recipes
     = (Inr \<lparr>body = Text ''Recipe not found'', status = 404\<rparr>, recipes)"
proof -
  assume "recipe_id \<notin> set (recipe_ids recipes)"
  then have "find (\<lambda>r. map_of r ''id'' = Some (PyInt recipe_id)) recipes = None"
    by (auto simp: find_None_iff recipe_ids_member)
  then have "next_recipe recipes recipe_id = Inr None"
    by (simp add: next_recipe_find [OF recipes_have_ids])
  then show ?thesis by (rule detail_of_none)
qed

theorem recipe_detail_not_found_witness:
  "(0::int) \<notin> set (recipe_ids recipes)
   \<and> recipe_detail 0 recipes = (Inr \<lparr>body = Text ''Recipe not found'', status = 404\<rparr>, recipes)
   \<and> (999::int) \<notin> set (recipe_ids recipes)
   \<and> recipe_detail 999 recipes = (Inr \<lparr>body = Text ''Recipe not found'', status = 404\<rparr>, recipes)"
proof -
  have a: "(0::int) \<notin> set (recipe_ids recipes)" by (simp add: recipes_def)
  have b: "(999::int) \<notin> set (recipe_ids recipes)" by (simp add: recipes_def)
  show ?thesis
    using a b recipe_detail_not_found [OF a] recipe_detail_not_found [OF b] by simp
qed

text \<open>
  C3. For every identifier of the seeded collection, the detail view answers with status 200
  and the detail page of a seeded record \<open>r\<close> that has this identifier; every seeded record with
  this identifier has the name, category and description of \<open>r\<close>.
\<close>

theorem recipe_detail_found:
  "recipe_id \<in> set (recipe_ids recipes) \<Longrightarrow>
   \<exists>r. r \<in> set recipes
     \<and> getitem r ''id'' = Inr (PyInt recipe_id)
     \<and> recipe_detail recipe_id recipes
         = (Inr \<lparr>body = Rendered ''recipe_detail.html'' [(''recipe'', CtxRecipe r)],
                 status = 200\<rparr>, recipes)
     \<and> (\<forall>r' \<in> set recipes. getitem r' ''id'' = Inr (PyInt recipe_id) \<longrightarrow>
            getitem r' ''name'' = getitem r ''name''
          \<and> getitem r' ''category'' = getitem r ''category''
          \<and> getitem r' ''description'' = getitem r ''description'')"
proof -
  let ?P = "\<lambda>r. map_of r ''id'' = Some (PyInt recipe_id)"
  assume "recipe_id \<in> set (recipe_ids recipes)"
  then obtain r where r: "r \<in> set recipes" "?P r"
    by (auto simp: recipe_ids_member)
  have f: "find ?P recipes = Some r"
    by (rule find_unique [OF recipes_ids_distinct r])
  then have n: "next_recipe recipes recipe_id = Inr (Some r)"
    by (simp add: next_recipe_find [OF recipes_have_ids])
  have d: "recipe_detail recipe_id recipes
         = (Inr \<lparr>body = Rendered ''recipe_detail.html'' [(''recipe'', CtxRecipe r)],
                 status = 200\<rparr>, recipes)"
    using detail_of_find [OF n r(2)] by (simp add: render_template_def)
  have u: "r' = r" if "r' \<in> set recipes" "getitem r' ''id'' = Inr (PyInt recipe_id)" for r'
  proof -
    from that(2) have "?P r'" by (simp add: getitem_def split: option.splits)
    from find_unique [OF recipes_ids_distinct that(1) this] f show ?thesis by simp
  qed
  from r(2) have "getitem r ''id'' = Inr (PyInt recipe_id)" by (simp add: getitem_def)
  with r(1) d u show ?thesis by blast
qed

theorem recipe_detail_found_witness:
  "(2::int) \<in> set (recipe_ids recipes)
   \<and> fst (recipe_detail 2 recipes)
       = Inr \<lparr>body = Rendered ''recipe_detail.html'' [(''recipe'', CtxRecipe (recipes ! 1))],
               status = 200\<rparr>
   \<and> getitem (recipes ! 1) ''name'' = Inr (PyStr ''Kare-Kare'')
   \<and> getitem (recipes ! 1) ''category'' = Inr (PyStr ''Main Course'')"
proof -
  have h: "(2::int) \<in> set (recipe_ids recipes)" by (simp add: recipes_def)
  from recipe_detail_found [OF h] obtain r where
    r: "r \<in> set recipes" "getitem r ''id'' = Inr (PyInt 2)"
    and d: "recipe_detail 2 recipes
         = (Inr \<lparr>body = Rendered ''recipe_detail.html'' [(''recipe'', CtxRecipe r)],
                 status = 200\<rparr>, recipes)"
    by blast
  have "\<forall>r \<in> set recipes. getitem r ''id'' = Inr (PyInt 2) \<longrightarrow> r = recipes ! 1"
    by (simp add: recipes_def getitem_def)
  with r have "r = recipes ! 1" by blast
  moreover have "getitem (recipes ! 1) ''name'' = Inr (PyStr ''Kare-Kare'')"
    by (simp add: recipes_def getitem_def)
  moreover have "getitem (recipes ! 1) ''category'' = Inr (PyStr ''Main Course'')"
    by (simp add: recipes_def getitem_def)
  ultimately show ?thesis using h d by simp
qed

section \<open>The home view and the static pages\<close>

text \<open>
  C6. After any sequence of requests, the home view answers with status 200 and the page
  \<open>index.html\<close> rendered with the whole seeded collection bound to \<open>recipes\<close>: three records,
  named Adobo, Kare-Kare and Lumpia.
\<close>

theorem index_supplies_all_recipes:
  "fst (index (serve reqs recipes))
     = Inr \<lparr>body = Rendered ''index.html'' [(''recipes'', CtxRecipes recipes)], status = 200\<rparr>
   \<and> length recipes = 3
   \<and> map (\<lambda>r. getitem r ''name'') recipes
     = [Inr (PyStr ''Adobo''), Inr (PyStr ''Kare-Kare''), Inr (PyStr ''Lumpia'')]"
proof -
  have "map (\<lambda>r. getitem r ''name'') recipes
     = [Inr (PyStr ''Adobo''), Inr (PyStr ''Kare-Kare''), Inr (PyStr ''Lumpia'')]"
    by (simp add: recipes_def getitem_def)
  moreover have "length recipes = 3" by (simp add: recipes_def)
  ultimately show ?thesis
    by (simp add: serve_frame index_def render_template_def)
qed




text \<open>
  C8. The add-recipe view takes no submitted data and returns the form page, handing the
  collection back as it was; a \<open>GET\<close> request to its route is answered with that page. On
  every route the reply is the same whatever query string and form the request carries; a
  \<open>POST\<close> request is answered on every route with status 405, without a call of a view
  function; and no request changes the collection.
\<close>

theorem add_recipe_ignores_submission:
  "add_recipe s = (Inr \<lparr>body = Rendered ''add_recipe.html'' [], status = 200\<rparr>, s)
   \<and> handle AddRecipe (rq\<lparr>req_method := ''GET''\<rparr>) s
       = (View (Inr \<lparr>body = Rendered ''add_recipe.html'' [], status = 200\<rparr>), s)
   \<and> handle ep (rq\<lparr>req_args := a, req_form := f\<rparr>) s = handle ep rq s
   \<and> handle ep (rq\<lparr>req_method := ''POST''\<rparr>) s = (Method_Not_Allowed, s)
   \<and> snd (handle ep rq s) = s"
  by (simp add: handle_def call_view_frame add_recipe_def render_template_def)

section \<open>The detail route\<close>

text \<open>
  C9. A request to \<open>/recipe/\<close> followed by a segment that is empty or holds a character other
  than a decimal digit, and so any segment that begins with a minus sign, is answered with
  the framework's own not-found page and not with the not-found response of the detail view.
  Whenever the result of the detail view is the reply, the segment is a run of digits and the
  view was called with the non-negative integer it denotes.
\<close>

theorem int_route_rejects:
  "((seg = [] \<or> (\<exists>c \<in> set seg. \<not> is_digit c)) \<longrightarrow>
       recipe_route seg rq s = (Not_Found_Page, s)
     \<and> fst (recipe_route seg rq s) \<noteq> View (Inr \<lparr>body = Text ''Recipe not found'', status = 404\<rparr>)
     \<and> fst (recipe_route seg rq s) \<noteq> View_Head (Inr \<lparr>body = Text ''Recipe not found'', status = 404\<rparr>))
   \<and> recipe_route (CHR ''-'' # ds) rq s = (Not_Found_Page, s)
   \<and> (fst (recipe_route seg rq s) = View res \<or> fst (recipe_route seg rq s) = View_Head res \<longrightarrow>
         (\<exists>n. int_converter seg = Some n \<and> res = fst (recipe_detail (int n) s) \<and> 0 \<le> int n))"
proof -
  have 1: "(seg = [] \<or> (\<exists>c \<in> set seg. \<not> is_digit c)) \<longrightarrow>
       recipe_route seg rq s = (Not_Found_Page, s)
     \<and> fst (recipe_route seg rq s) \<noteq> View (Inr \<lparr>body = Text ''Recipe not found'', status = 404\<rparr>)
     \<and> fst (recipe_route seg rq s) \<noteq> View_Head (Inr \<lparr>body = Text ''Recipe not found'', status = 404\<rparr>)"
    using int_converter_None [of seg] by (auto simp: recipe_route_def)
  have "\<not> is_digit CHR ''-''" by (simp add: is_digit_def)
  then have "int_converter (CHR ''-'' # ds) = None" by (simp add: int_converter_def)
  then have 2: "recipe_route (CHR ''-'' # ds) rq s = (Not_Found_Page, s)"
    by (simp add: recipe_route_def)
  have 3: "fst (recipe_route seg rq s) = View res \<or> fst (recipe_route seg rq s) = View_Head res \<longrightarrow>
         (\<exists>n. int_converter seg = Some n \<and> res = fst (recipe_detail (int n) s) \<and> 0 \<le> int n)"
    by (auto simp: recipe_route_def handle_def split: option.splits if_splits)
  from 1 2 3 show ?thesis by blast
qed

theorem int_route_rejects_witness:
  "\<not> is_digit CHR ''a''
   \<and> recipe_route ''abc'' \<lparr>req_method = ''GET'', req_args = [], req_form = []\<rparr> recipes
       = (Not_Found_Page, recipes)
   \<and> recipe_route ''-1'' \<lparr>req_method = ''GET'', req_args = [], req_form = []\<rparr> recipes
       = (Not_Found_Page, recipes)
   \<and> fst (recipe_route ''2'' \<lparr>req_method = ''GET'', req_args = [], req_form = []\<rparr> [])
       = View (Inr \<lparr>body = Text ''Recipe not found'', status = 404\<rparr>)
   \<and> int_converter ''2'' \<noteq> None"
proof -
  let ?get = "\<lparr>req_method = ''GET'', req_args = [], req_form = []\<rparr>"
  let ?nf = "Inr \<lparr>body = Text ''Recipe not found'', status = 404\<rparr> :: error + response"
  have d: "\<not> is_digit CHR ''a''" by (simp add: is_digit_def)
  then have h: "''abc'' = [] \<or> (\<exists>c \<in> set ''abc''. \<not> is_digit c)" by simp
  have v: "fst (recipe_route ''2'' ?get []) = View ?nf"
    by (simp add: recipe_route_def int_converter_def is_digit_def digit_value_def
          handle_def recipe_detail_def)
  from h int_route_rejects [of "''abc''" ?get recipes "''1''"]
  have 1: "recipe_route ''abc'' ?get recipes = (Not_Found_Page, recipes)"
    and 2: "recipe_route ''-1'' ?get recipes = (Not_Found_Page, recipes)"
    by simp_all
  from v int_route_rejects [of "''2''" ?get "[]" "[]" ?nf]
  have 3: "int_converter ''2'' \<noteq> None" by auto
  from d 1 2 v 3 show ?thesis by simp
qed

section \<open>The collection is never changed\<close>

text \<open>
  C5. Each of the five view functions hands back the collection it was given, for every
  collection, identifier and request; so does the dispatch to any route, and so does any
  sequence of requests. The lookup \<open>next_recipe\<close> returns a record or \<open>None\<close> and no collection.
\<close>

theorem handlers_leave_collection_unchanged:
  "snd (index s) = s
   \<and> snd (recipe_detail recipe_id s) = s
   \<and> snd (add_recipe s) = s
   \<and> snd (about s) = s
   \<and> snd (contact s) = s
   \<and> snd (handle ep rq s) = s
   \<and> serve reqs s = s"
  by (simp add: index_def add_recipe_def about_def contact_def
        recipe_detail_frame handle_frame serve_frame)

end
